theory Spec2Isabelle
  imports Complex_Main "HOL-Library.Sublist" "HOL-Library.AList"
begin

section \<open>Python values, exceptions and the string built-ins the program uses\<close>

text \<open>
  The values that \<^verbatim>\<open>json.load\<close> produces and \<^verbatim>\<open>json.dump\<close> accepts. A dictionary
  is an association list in insertion order with string keys; a float is idealised as a
  rational number (no rounding, no NaN, no infinities).
\<close>

datatype pyval =
    PNone
  | PBool bool
  | PInt int
  | PFloat rat
  | PStr string
  | PList "pyval list"
  | PDict "(string \<times> pyval) list"

text \<open>
  The exceptions the program can meet. All of them are subclasses of \<^verbatim>\<open>Exception\<close>;
  \<^verbatim>\<open>HTTPError\<close> carries the status code of \<^verbatim>\<open>e.response\<close> when there is a response.
\<close>

datatype exn =
    IndexError
  | KeyError
  | ValueError
  | TypeError
  | AttributeError
  | SyntaxError
  | HTTPError "int option"
  | FileNotFoundError
  | JSONDecodeError
  | OtherException string

text \<open>Sequencing of computations that may raise: the first exception wins.\<close>

definition bindE :: "exn + 'a \<Rightarrow> ('a \<Rightarrow> exn + 'b) \<Rightarrow> exn + 'b" where
  "bindE m f = (case m of Inl e \<Rightarrow> Inl e | Inr x \<Rightarrow> f x)"

text \<open>
  \<^verbatim>\<open>s.replace(old, new)\<close>: occurrences of \<open>old\<close> are replaced from left to right
  without overlap. The counter is the number of characters of a matched occurrence that
  are still to be skipped. For an empty \<open>old\<close> Python inserts \<open>new\<close> around every character.
\<close>

fun replace_go :: "string \<Rightarrow> string \<Rightarrow> nat \<Rightarrow> string \<Rightarrow> string" where
  "replace_go old new k [] = []"
| "replace_go old new (Suc k) (c # cs) = replace_go old new k cs"
| "replace_go old new 0 (c # cs) =
     (if prefix old (c # cs) then new @ replace_go old new (length old - 1) cs
      else c # replace_go old new 0 cs)"

definition replace :: "string \<Rightarrow> string \<Rightarrow> string \<Rightarrow> string" where
  "replace s old new =
     (if old = [] then new @ concat (map (\<lambda>c. c # new) s) else replace_go old new 0 s)"

text \<open>
  \<^verbatim>\<open>s.split(sep)\<close> for a non-empty separator (every call site passes a non-empty
  literal): the pieces between the non-overlapping occurrences of \<open>sep\<close>, found from
  left to right. The result always has at least one element.
\<close>

fun split_go :: "string \<Rightarrow> nat \<Rightarrow> string \<Rightarrow> string \<Rightarrow> string list" where
  "split_go sep k acc [] = [rev acc]"
| "split_go sep (Suc k) acc (c # cs) = split_go sep k acc cs"
| "split_go sep 0 acc (c # cs) =
     (if prefix sep (c # cs) then rev acc # split_go sep (length sep - 1) [] cs
      else split_go sep 0 (c # acc) cs)"

definition split :: "string \<Rightarrow> string \<Rightarrow> string list" where
  "split s sep = split_go sep 0 [] s"

text \<open>\<^verbatim>\<open>xs[i]\<close> on a list, for a non-negative literal index: out of range raises.\<close>

definition index :: "'a list \<Rightarrow> nat \<Rightarrow> exn + 'a" where
  "index xs i = (if i < length xs then Inr (xs ! i) else Inl IndexError)"

text \<open>
  \<^verbatim>\<open>s.find(sub, start)\<close>: the lowest index at or after \<open>start\<close> where \<open>sub\<close> occurs,
  or \<open>-1\<close>.
\<close>

fun find_go :: "string \<Rightarrow> nat \<Rightarrow> string \<Rightarrow> int" where
  "find_go sub i [] = (if sub = [] then int i else -1)"
| "find_go sub i (c # cs) = (if prefix sub (c # cs) then int i else find_go sub (Suc i) cs)"

definition find :: "string \<Rightarrow> string \<Rightarrow> int \<Rightarrow> int" where
  "find s sub start =
     (let n = int (length s);
          st = (if start < 0 then max 0 (start + n) else start)
      in if st > n then -1 else find_go sub (nat st) (drop (nat st) s))"

text \<open>\<^verbatim>\<open>s[a:b]\<close>: negative bounds count from the end, and both are clipped to the string.\<close>

definition slice :: "string \<Rightarrow> int \<Rightarrow> int \<Rightarrow> string" where
  "slice s a b =
     (let n = int (length s);
          clip = (\<lambda>i. if i < 0 then max 0 (i + n) else min i n)
      in take (nat (clip b - clip a)) (drop (nat (clip a)) s))"

text \<open>
  The integer a value is equal to when Python compares it with an \<^verbatim>\<open>int\<close> (as a
  dictionary key or with \<^verbatim>\<open>==\<close>): \<^verbatim>\<open>True == 1\<close> and \<^verbatim>\<open>2.0 == 2\<close>.
\<close>

fun as_int :: "pyval \<Rightarrow> int option" where
  "as_int (PInt i) = Some i"
| "as_int (PBool b) = Some (if b then 1 else 0)"
| "as_int (PFloat r) = (if r = of_int \<lfloor>r\<rfloor> then Some \<lfloor>r\<rfloor> else None)"
| "as_int _ = None"

text \<open>Lists and dictionaries cannot be dictionary keys: looking one up raises \<^verbatim>\<open>TypeError\<close>.\<close>

fun hashable :: "pyval \<Rightarrow> bool" where
  "hashable (PList xs) = False"
| "hashable (PDict d) = False"
| "hashable _ = True"

section \<open>\<^verbatim>\<open>get_hashname\<close>\<close>

definition float_conditions :: "(int \<times> string) list" where
  "float_conditions =
     [(0, ''%20%28Factory%20New%29''),
      (1, ''%20%28Minimal%20Wear%29''),
      (2, ''%20%28Field-Tested%29''),
      (3, ''%20%28Well-Worn%29''),
      (4, ''%20%28Battle-Scarred%29'')]"

text \<open>
  The trade-mark sign of the source literal \<^verbatim>\<open>StatTrak(TM)%20\<close> is one code point in
  Python; here it is written as the three bytes of its UTF-8 encoding.
\<close>

definition stattrak :: string where
  "stattrak = ''StatTrak'' @ [CHR 0xE2, CHR 0x84, CHR 0xA2]"

definition get_hashname :: "string \<Rightarrow> string \<Rightarrow> pyval \<Rightarrow> pyval \<Rightarrow> exn + string" where
  "get_hashname item skin wear stat =
     (let item1 = replace item '' '' ''%20'';
          skin1 = replace skin '' '' ''%20''
      in if \<not> hashable wear then Inl TypeError
         else case Option.bind (as_int wear) (map_of float_conditions) of
                None \<Rightarrow> Inl KeyError
              | Some wear1 \<Rightarrow>
                  let item2 = (if as_int stat = Some 1 then stattrak @ ''%20'' @ item1 else item1)
                  in Inr (item2 @ ''%20%7C%20'' @ skin1 @ wear1))"

section \<open>The environment\<close>

text \<open>
  What the program observes of the outside world and of the Python runtime, as one
  parameter. \<open>http w n url\<close> is what the \<open>n\<close>-th call of \<^verbatim>\<open>self.client.get\<close> of the run
  (counted from 0) does when it is made for \<open>url\<close>: it returns a response, with its
  status code and its text, or it raises. \<open>latency w n\<close> is the time the call takes;
  \<open>random w n\<close> is the value of \<^verbatim>\<open>random.random()\<close> behind the
  \<^verbatim>\<open>random.uniform\<close> drawn before that call. \<open>py_eval\<close>, \<open>int_of_str\<close> and
  \<open>float_of_str\<close> are the built-ins \<^verbatim>\<open>eval\<close>, \<^verbatim>\<open>int\<close> and \<^verbatim>\<open>float\<close> on a string
  (\<open>py_eval\<close> is taken to be free of side effects and to yield values of type
  \<^typ>\<open>pyval\<close>), and \<open>exn_str\<close> is \<^verbatim>\<open>str(e)\<close> on an exception.
\<close>

datatype outcome = Response int string | Raises exn

record world =
  http :: "nat \<Rightarrow> string \<Rightarrow> outcome"
  latency :: "nat \<Rightarrow> rat"
  random :: "nat \<Rightarrow> rat"
  py_eval :: "string \<Rightarrow> exn + pyval"
  int_of_str :: "string \<Rightarrow> exn + int"
  float_of_str :: "string \<Rightarrow> exn + rat"
  exn_str :: "exn \<Rightarrow> string"

section \<open>\<^verbatim>\<open>RateLimitedClient\<close>\<close>

text \<open>
  The three fields of the client, together with the wall clock (\<^verbatim>\<open>time.time()\<close>) and
  two logs kept for the statements below: every dispatched request with its dispatch
  time, and every \<^verbatim>\<open>time.sleep\<close> with its duration. Time passes only in
  \<^verbatim>\<open>time.sleep\<close>, which sleeps exactly as long as asked, and in requests.
\<close>

record state =
  min_delay :: rat
  max_delay :: rat
  last_request_time :: rat
  clock :: rat
  sent :: "(string \<times> rat) list"
  slept :: "rat list"

definition new_client :: "rat \<Rightarrow> state" where
  "new_client now =
     \<lparr>min_delay = 3 / 2, max_delay = 3, last_request_time = 0, clock = now,
      sent = [], slept = []\<rparr>"

definition sleep :: "rat \<Rightarrow> state \<Rightarrow> state" where
  "sleep t s = s\<lparr>clock := clock s + t, slept := slept s @ [t]\<rparr>"

definition uniform :: "world \<Rightarrow> nat \<Rightarrow> rat \<Rightarrow> rat \<Rightarrow> rat" where
  "uniform w n a b = a + (b - a) * random w n"

definition wait_if_needed :: "world \<Rightarrow> state \<Rightarrow> state" where
  "wait_if_needed w s =
     (if last_request_time s > 0 then
        let elapsed = clock s - last_request_time s;
            delay = uniform w (length (sent s)) (min_delay s) (max_delay s)
        in if elapsed < delay then sleep (delay - elapsed) s else s
      else s)"

text \<open>The state when \<^verbatim>\<open>self.client.get(url)\<close> has been called and has come back.\<close>

definition dispatch :: "world \<Rightarrow> state \<Rightarrow> string \<Rightarrow> state" where
  "dispatch w s url =
     s\<lparr>sent := sent s @ [(url, clock s)], clock := clock s + latency w (length (sent s))\<rparr>"

text \<open>
  The test of the handler, \<^verbatim>\<open>e.response and e.response.status_code == 429\<close>: the call has
  raised an \<^verbatim>\<open>HTTPError\<close> that carries a response with status 429.
\<close>

definition rejected :: "outcome \<Rightarrow> bool" where
  "rejected r = (r = Raises (HTTPError (Some 429)))"

text \<open>
  \<^verbatim>\<open>RateLimitedClient.get\<close>. A response is returned whatever its status code is (the
  callers read only its text). The retry is a recursive call of the method, as in the
  source; a call that never returns has the value \<open>None\<close>. (The interpreter's limit on
  the recursion depth is not modelled.)
\<close>

partial_function (option) get :: "world \<Rightarrow> state \<Rightarrow> string \<Rightarrow> ((exn + string) \<times> state) option" where
  "get w s url =
     (let s1 = wait_if_needed w s;
          s2 = dispatch w s1 url
      in case http w (length (sent s1)) url of
           Response status text \<Rightarrow> Some (Inr text, s2\<lparr>last_request_time := clock s2\<rparr>)
         | Raises e \<Rightarrow>
             if rejected (Raises e) then get w (sleep 5 s2) url
             else Some (Inl e, s2))"

declare get.simps [code]

section \<open>\<^verbatim>\<open>get_nameid\<close> and \<^verbatim>\<open>item_data\<close>\<close>

text \<open>\<^verbatim>\<open>str(n)\<close> for an integer: its decimal digits.\<close>

definition digit_char :: "nat \<Rightarrow> char" where
  "digit_char d = char_of (of_char (CHR ''0'') + d)"

function str_nat :: "nat \<Rightarrow> string" where
  "str_nat n = (if n < 10 then [digit_char n] else str_nat (n div 10) @ [digit_char (n mod 10)])"
  by pat_completeness auto
termination
  by (relation "measure id") auto

definition str_int :: "int \<Rightarrow> string" where
  "str_int i = (if i < 0 then ''-'' @ str_nat (nat (- i)) else str_nat (nat i))"

definition listing_url :: "string \<Rightarrow> string" where
  "listing_url hashname = ''https://steamcommunity.com/market/listings/730/'' @ hashname"

definition histogram_url :: "string \<Rightarrow> string" where
  "histogram_url nameid =
     ''https://steamcommunity.com/market/itemordershistogram?country=US&currency=1&language=english&two_factor=0&item_nameid='' @ nameid"

definition volume_url :: "string \<Rightarrow> string" where
  "volume_url hashname =
     ''https://steamcommunity.com/market/priceoverview/?appid=730&currency=1&market_hash_name='' @ hashname"

text \<open>\<^verbatim>\<open>text.split(a)[1].split(b)[0]\<close>, the extraction idiom of the program.\<close>

definition between :: "string \<Rightarrow> string \<Rightarrow> string \<Rightarrow> exn + string" where
  "between text a b = bindE (index (split text a) 1) (\<lambda>rest. index (split rest b) 0)"

definition get_nameid :: "world \<Rightarrow> state \<Rightarrow> string \<Rightarrow> ((exn + int) \<times> state) option" where
  "get_nameid w s hashname =
     (case get w s (listing_url hashname) of
        None \<Rightarrow> None
      | Some (r, s') \<Rightarrow>
          Some (bindE r (\<lambda>html. bindE (between html ''Market_LoadOrderSpread( '' '' '') (int_of_str w)), s'))"

text \<open>Iterating over a value (\<^verbatim>\<open>for order in graph\<close>) and indexing it (\<^verbatim>\<open>order[0]\<close>).\<close>

fun py_iter :: "pyval \<Rightarrow> exn + pyval list" where
  "py_iter (PList xs) = Inr xs"
| "py_iter (PStr s) = Inr (map (\<lambda>c. PStr [c]) s)"
| "py_iter (PDict d) = Inr (map (\<lambda>kv. PStr (fst kv)) d)"
| "py_iter _ = Inl TypeError"

fun py_index :: "pyval \<Rightarrow> nat \<Rightarrow> exn + pyval" where
  "py_index (PList xs) i = index xs i"
| "py_index (PStr s) i = bindE (index s i) (\<lambda>c. Inr (PStr [c]))"
| "py_index (PDict d) i = Inl KeyError"
| "py_index _ i = Inl TypeError"

fun to_float :: "world \<Rightarrow> pyval \<Rightarrow> exn + rat" where
  "to_float w (PInt i) = Inr (of_int i)"
| "to_float w (PFloat r) = Inr r"
| "to_float w (PBool b) = Inr (if b then 1 else 0)"
| "to_float w (PStr s) = float_of_str w s"
| "to_float w _ = Inl TypeError"

fun mapE :: "('a \<Rightarrow> exn + 'b) \<Rightarrow> 'a list \<Rightarrow> exn + 'b list" where
  "mapE f [] = Inr []"
| "mapE f (x # xs) = bindE (f x) (\<lambda>y. bindE (mapE f xs) (\<lambda>ys. Inr (y # ys)))"

text \<open>The list comprehension that turns a parsed graph into order dictionaries.\<close>

definition convert_orders :: "world \<Rightarrow> pyval \<Rightarrow> exn + pyval list" where
  "convert_orders w graph =
     bindE (py_iter graph)
       (mapE (\<lambda>order.
          bindE (bindE (py_index order 0) (to_float w)) (\<lambda>price.
          bindE (py_index order 1) (\<lambda>count.
          Inr (PDict [(''price'', PFloat price), (''count'', count)])))))"

text \<open>The text of one depth array: from the end of its label up to the first \<^verbatim>\<open>]],\<close>.\<close>

definition graph_str :: "string \<Rightarrow> string \<Rightarrow> string" where
  "graph_str order_data label =
     (let graph_start = find order_data label 0 + int (length label);
          graph_end = find order_data '']],'' graph_start + 2
      in slice order_data graph_start graph_end)"

text \<open>The body of the \<^verbatim>\<open>try\<close> block that parses both graphs.\<close>

definition parse_graphs :: "world \<Rightarrow> string \<Rightarrow> exn + (pyval list \<times> pyval list)" where
  "parse_graphs w order_data =
     bindE (py_eval w (graph_str order_data ''\"buy_order_graph\":'')) (\<lambda>buy_graph.
     bindE (py_eval w (graph_str order_data ''\"sell_order_graph\":'')) (\<lambda>sell_graph.
     bindE (convert_orders w buy_graph) (\<lambda>buy_orders.
     bindE (convert_orders w sell_graph) (\<lambda>sell_orders.
     Inr (buy_orders, sell_orders)))))"

text \<open>The price in cents under a label, divided by 100.\<close>

definition price :: "world \<Rightarrow> string \<Rightarrow> string \<Rightarrow> exn + pyval" where
  "price w order_data label =
     bindE (bindE (between order_data label ''\"'') (int_of_str w))
       (\<lambda>cents. Inr (PFloat (of_int cents / 100)))"

text \<open>The volume request and its parse; any exception gives \<^verbatim>\<open>None\<close>.\<close>

definition get_volume :: "world \<Rightarrow> state \<Rightarrow> string \<Rightarrow> (pyval \<times> state) option" where
  "get_volume w s hashname =
     (case get w s (volume_url hashname) of
        None \<Rightarrow> None
      | Some (r, s') \<Rightarrow>
          Some (case bindE r (\<lambda>text. bindE (between text ''volume\":\"'' ''\"'') (int_of_str w)) of
                  Inl e \<Rightarrow> PNone
                | Inr v \<Rightarrow> PInt v, s'))"

definition item_data :: "world \<Rightarrow> state \<Rightarrow> string \<Rightarrow> ((exn + (string \<times> pyval) list) \<times> state) option" where
  "item_data w s hashname =
     (case get_nameid w s hashname of
        None \<Rightarrow> None
      | Some (Inl e, s1) \<Rightarrow> Some (Inl e, s1)
      | Some (Inr n, s1) \<Rightarrow>
          let nameid = str_int n in
          (case get w s1 (histogram_url nameid) of
             None \<Rightarrow> None
           | Some (Inl e, s2) \<Rightarrow> Some (Inl e, s2)
           | Some (Inr order_data, s2) \<Rightarrow>
               (case price w order_data ''\"highest_buy_order\":\"'' of
                  Inl e \<Rightarrow> Some (Inl e, s2)
                | Inr buy_req \<Rightarrow>
                    (case price w order_data ''\"lowest_sell_order\":\"'' of
                       Inl e \<Rightarrow> Some (Inl e, s2)
                     | Inr sell_req \<Rightarrow>
                         let (buy_orders, sell_orders) =
                               (case parse_graphs w order_data of
                                  Inl e \<Rightarrow> ([], [])
                                | Inr graphs \<Rightarrow> graphs)
                         in (case get_volume w s2 hashname of
                               None \<Rightarrow> None
                             | Some (volume, s3) \<Rightarrow>
                                 Some (Inr [(''buy_req'', buy_req),
                                            (''sell_req'', sell_req),
                                            (''buy_orders'', PList buy_orders),
                                            (''sell_orders'', PList sell_orders),
                                            (''volume'', volume),
                                            (''nameid'', PStr nameid)], s3))))))"

section \<open>\<^verbatim>\<open>process_all_skins\<close>\<close>

text \<open>
  A file is absent, holds text that is not JSON (an empty file is such a text), or holds
  a JSON document. \<^verbatim>\<open>json.dump\<close> followed by \<^verbatim>\<open>json.load\<close> is taken to give the
  value back, so a written file is identified with the value written.
\<close>

datatype file_content = NoFile | Invalid | Json pyval

text \<open>The warnings and errors the batch logs; items are numbered from 0 here.\<close>

datatype logmsg =
    SkippingNoName nat
  | ErrorProcessing nat exn
  | InputNotFound
  | InputNotJson
  | Unexpected exn

text \<open>
  The state of a run. \<open>skins\<close> holds the objects of the loaded list, one per position;
  \<open>processed_skins\<close> is the Python list of the same name, whose elements are references
  to those objects, written as their positions. \<open>history\<close> lists every content the
  output file has had, in order.
\<close>

record run =
  net :: state
  skins :: "pyval list"
  processed_skins :: "nat list"
  output_file :: file_content
  history :: "file_content list"
  logged :: "logmsg list"

text \<open>\<^verbatim>\<open>'name' in skin\<close>, \<^verbatim>\<open>skin[key]\<close>, \<^verbatim>\<open>skin.get(key, default)\<close>,
  \<^verbatim>\<open>name.split(sep)\<close>, \<^verbatim>\<open>skin[key] = v\<close> and \<^verbatim>\<open>len(skins)\<close> on any value.\<close>

fun contains_name :: "pyval \<Rightarrow> exn + bool" where
  "contains_name (PDict d) = Inr (map_of d ''name'' \<noteq> None)"
| "contains_name (PList xs) = Inr (PStr ''name'' \<in> set xs)"
| "contains_name (PStr s) = Inr (sublist ''name'' s)"
| "contains_name _ = Inl TypeError"

fun getitem :: "pyval \<Rightarrow> string \<Rightarrow> exn + pyval" where
  "getitem (PDict d) key = (case map_of d key of None \<Rightarrow> Inl KeyError | Some v \<Rightarrow> Inr v)"
| "getitem _ key = Inl TypeError"

fun dict_get :: "pyval \<Rightarrow> string \<Rightarrow> pyval \<Rightarrow> exn + pyval" where
  "dict_get (PDict d) key dflt = Inr (case map_of d key of None \<Rightarrow> dflt | Some v \<Rightarrow> v)"
| "dict_get _ key dflt = Inl AttributeError"

fun str_split :: "pyval \<Rightarrow> string \<Rightarrow> exn + string list" where
  "str_split (PStr s) sep = Inr (split s sep)"
| "str_split _ sep = Inl AttributeError"

fun setitem :: "pyval \<Rightarrow> string \<Rightarrow> pyval \<Rightarrow> exn + pyval" where
  "setitem (PDict d) key v = Inr (PDict (AList.update key v d))"
| "setitem _ key v = Inl TypeError"

fun py_len :: "pyval \<Rightarrow> exn + nat" where
  "py_len (PList xs) = Inr (length xs)"
| "py_len (PStr s) = Inr (length s)"
| "py_len (PDict d) = Inr (length d)"
| "py_len _ = Inl TypeError"

text \<open>The hashname of a skin: the name is split and the four arguments are read.\<close>

definition skin_hashname :: "pyval \<Rightarrow> exn + string" where
  "skin_hashname skin =
     bindE (getitem skin ''name'') (\<lambda>name.
     bindE (str_split name '' | '') (\<lambda>skin_names.
     bindE (index skin_names 0) (\<lambda>weapon.
     bindE (index skin_names 1) (\<lambda>finish.
     bindE (dict_get skin ''wear'' (PInt 0)) (\<lambda>wear.
     bindE (dict_get skin ''stat'' (PInt 0)) (\<lambda>stat.
     get_hashname weapon finish wear stat))))))"

text \<open>The two statements that get the market data of a skin.\<close>

definition fetch_skin :: "world \<Rightarrow> state \<Rightarrow> pyval \<Rightarrow> ((exn + (string \<times> pyval) list) \<times> state) option" where
  "fetch_skin w s skin =
     (case skin_hashname skin of
        Inl e \<Rightarrow> Some (Inl e, s)
      | Inr hashname \<Rightarrow> item_data w s hashname)"

text \<open>
  \<^verbatim>\<open>processed_skins.append(skin)\<close> and the rewrite of the output file:
  \<^verbatim>\<open>open(output_file, 'w')\<close> empties the file, \<^verbatim>\<open>json.dump\<close> then writes the whole list.
\<close>

definition append_and_dump :: "run \<Rightarrow> nat \<Rightarrow> run" where
  "append_and_dump rs i =
     (let ps = processed_skins rs @ [i];
          content = Json (PList (map (\<lambda>r. skins rs ! r) ps))
      in rs\<lparr>processed_skins := ps, output_file := content,
            history := history rs @ [Invalid, content]\<rparr>)"

text \<open>The \<^verbatim>\<open>try\<close> block of the loop body for the skin at position \<open>i\<close>.\<close>

definition try_skin :: "world \<Rightarrow> run \<Rightarrow> nat \<Rightarrow> ((exn + unit) \<times> run) option" where
  "try_skin w rs i =
     (let skin = skins rs ! i in
      case contains_name skin of
        Inl e \<Rightarrow> Some (Inl e, rs)
      | Inr False \<Rightarrow> Some (Inr (), rs\<lparr>logged := logged rs @ [SkippingNoName i]\<rparr>)
      | Inr True \<Rightarrow>
          (case fetch_skin w (net rs) skin of
             None \<Rightarrow> None
           | Some (Inl e, s') \<Rightarrow> Some (Inl e, rs\<lparr>net := s'\<rparr>)
           | Some (Inr market_data, s') \<Rightarrow>
               (case setitem skin ''market_data'' (PDict market_data) of
                  Inl e \<Rightarrow> Some (Inl e, rs\<lparr>net := s'\<rparr>)
                | Inr skin' \<Rightarrow>
                    Some (Inr (), append_and_dump (rs\<lparr>net := s', skins := (skins rs)[i := skin']\<rparr>) i))))"

text \<open>The \<^verbatim>\<open>except Exception as e\<close> block of the loop body.\<close>

definition handle_skin :: "world \<Rightarrow> run \<Rightarrow> nat \<Rightarrow> exn \<Rightarrow> (exn + unit) \<times> run" where
  "handle_skin w rs i e =
     (let skin = skins rs ! i in
      case dict_get skin ''name'' (PStr ''Unknown'') of
        Inl e' \<Rightarrow> (Inl e', rs)
      | Inr name \<Rightarrow>
          let rs1 = rs\<lparr>logged := logged rs @ [ErrorProcessing i e]\<rparr> in
          (case setitem skin ''market_data'' (PDict [(''error'', PStr (exn_str w e))]) of
             Inl e' \<Rightarrow> (Inl e', rs1)
           | Inr skin' \<Rightarrow> (Inr (), append_and_dump (rs1\<lparr>skins := (skins rs1)[i := skin']\<rparr>) i)))"

definition process_skin :: "world \<Rightarrow> run \<Rightarrow> nat \<Rightarrow> ((exn + unit) \<times> run) option" where
  "process_skin w rs i =
     (case try_skin w rs i of
        None \<Rightarrow> None
      | Some (Inl e, rs') \<Rightarrow> Some (handle_skin w rs' i e)
      | Some (Inr u, rs') \<Rightarrow> Some (Inr (), rs'))"

text \<open>The \<^verbatim>\<open>for\<close> loop over the positions: an exception that leaves the body ends it.\<close>

fun process_loop :: "world \<Rightarrow> run \<Rightarrow> nat list \<Rightarrow> ((exn + unit) \<times> run) option" where
  "process_loop w rs [] = Some (Inr (), rs)"
| "process_loop w rs (i # rest) =
     (case process_skin w rs i of
        None \<Rightarrow> None
      | Some (Inl e, rs') \<Rightarrow> Some (Inl e, rs')
      | Some (Inr u, rs') \<Rightarrow> process_loop w rs' rest)"

definition load_json :: "file_content \<Rightarrow> exn + pyval" where
  "load_json f = (case f of NoFile \<Rightarrow> Inl FileNotFoundError | Invalid \<Rightarrow> Inl JSONDecodeError | Json v \<Rightarrow> Inr v)"

definition initial_run :: "rat \<Rightarrow> file_content \<Rightarrow> run" where
  "initial_run now out =
     \<lparr>net = new_client now, skins = [], processed_skins = [], output_file = out,
      history = [], logged = []\<rparr>"

text \<open>The state in which the loop starts: the output file has been set to an empty list.\<close>

definition start_run :: "rat \<Rightarrow> file_content \<Rightarrow> pyval list \<Rightarrow> run" where
  "start_run now out items =
     (initial_run now out)\<lparr>skins := items, output_file := Json (PList []),
        history := [Invalid, Json (PList [])]\<rparr>"

text \<open>The body of the outer \<^verbatim>\<open>try\<close> block.\<close>

definition run_body :: "world \<Rightarrow> rat \<Rightarrow> file_content \<Rightarrow> file_content \<Rightarrow> ((exn + unit) \<times> run) option" where
  "run_body w now input_file out =
     (case load_json input_file of
        Inl e \<Rightarrow> Some (Inl e, initial_run now out)
      | Inr data \<Rightarrow>
          (case py_len data of
             Inl e \<Rightarrow> Some (Inl e, initial_run now out)
           | Inr total_skins \<Rightarrow>
               (case py_iter data of
                  Inl e \<Rightarrow> Some (Inl e, start_run now out [])
                | Inr items \<Rightarrow> process_loop w (start_run now out items) [0..<length items])))"

text \<open>
  \<^verbatim>\<open>process_all_skins\<close>: the three \<^verbatim>\<open>except\<close> clauses log the exception and the
  function returns. \<open>now\<close> is the time at the start and \<open>out\<close> the output file as it is
  found.
\<close>

definition process_all_skins :: "world \<Rightarrow> rat \<Rightarrow> file_content \<Rightarrow> file_content \<Rightarrow> ((exn + unit) \<times> run) option" where
  "process_all_skins w now input_file out =
     (case run_body w now input_file out of
        None \<Rightarrow> None
      | Some (Inr u, rs) \<Rightarrow> Some (Inr (), rs)
      | Some (Inl e, rs) \<Rightarrow>
          Some (Inr (),
            rs\<lparr>logged := logged rs @
              [case e of FileNotFoundError \<Rightarrow> InputNotFound
                       | JSONDecodeError \<Rightarrow> InputNotJson
                       | _ \<Rightarrow> Unexpected e]\<rparr>))"

text \<open>The exit status of the script: 1 if an exception leaves the entry point, else 0.\<close>

definition exit_status :: "exn + unit \<Rightarrow> nat" where
  "exit_status r = (case r of Inl e \<Rightarrow> 1 | Inr u \<Rightarrow> 0)"

section \<open>Notions used in the statements\<close>

text \<open>
  What \<^verbatim>\<open>replace(" ", "%20")\<close> computes, character by character, and the prefix that
  the StatTrak flag puts before the weapon name, before the spaces are encoded.
\<close>

definition enc :: "string \<Rightarrow> string" where
  "enc s = concat (map (\<lambda>c. if c = CHR '' '' then ''%20'' else [c]) s)"

definition pre :: "pyval \<Rightarrow> string" where
  "pre stat = (if as_int stat = Some 1 then stattrak @ '' '' else [])"

text \<open>
  An environment is fair when no request takes the retry branch for ever: from every
  request on, some later attempt for the same URL has another outcome than an error raised
  with a 429 response.
\<close>

definition fair :: "world \<Rightarrow> bool" where
  "fair w = (\<forall>n url. \<exists>k. \<not> rejected (http w (n + k) url))"

text \<open>
  The client as the program builds it: \<^verbatim>\<open>httpx.Client()\<close> without event hooks, whose
  \<^verbatim>\<open>get\<close> is never followed by \<^verbatim>\<open>raise_for_status\<close>. Such a client raises transport
  errors only, which carry no response; a status code reaches \<^verbatim>\<open>RateLimitedClient.get\<close>
  only inside a returned response.
\<close>

definition plain_client :: "world \<Rightarrow> bool" where
  "plain_client w = (\<forall>n url code. http w n url \<noteq> Raises (HTTPError (Some code)))"

text \<open>
  What \<^verbatim>\<open>RateLimitedClient.get\<close> hands to its caller for an outcome of the underlying call.
\<close>

definition result :: "outcome \<Rightarrow> exn + string" where
  "result r = (case r of Response status text \<Rightarrow> Inr text | Raises e \<Rightarrow> Inl e)"

text \<open>
  The keys of the dictionary that \<^verbatim>\<open>item_data\<close> returns, in insertion order.
\<close>

definition item_keys :: "string list" where
  "item_keys = [''buy_req'', ''sell_req'', ''buy_orders'', ''sell_orders'', ''volume'', ''nameid'']"

text \<open>
  A catalog item is a record (a JSON object); \<open>has_name\<close> says that the test
  \<^verbatim>\<open>'name' not in skin\<close> is false for it.
\<close>

fun is_dict :: "pyval \<Rightarrow> bool" where
  "is_dict (PDict d) = True"
| "is_dict _ = False"

definition has_name :: "pyval \<Rightarrow> bool" where
  "has_name skin = (contains_name skin = Inr True)"

text \<open>
  The value stored under \<^verbatim>\<open>market_data\<close>: the market data on success, the error
  descriptor \<^verbatim>\<open>{"error": str(e)}\<close> on failure; and the item with that value stored.
\<close>

definition market_record :: "world \<Rightarrow> exn + (string \<times> pyval) list \<Rightarrow> pyval" where
  "market_record w r =
     (case r of Inr data \<Rightarrow> PDict data | Inl e \<Rightarrow> PDict [(''error'', PStr (exn_str w e))])"

fun set_market_data :: "pyval \<Rightarrow> pyval \<Rightarrow> pyval" where
  "set_market_data (PDict d) md = PDict (AList.update ''market_data'' md d)"
| "set_market_data v md = v"

text \<open>
  The output file holds exactly the records accumulated so far.
\<close>

definition dumped :: "run \<Rightarrow> bool" where
  "dumped rs = (output_file rs = Json (PList (map (\<lambda>r. skins rs ! r) (processed_skins rs))))"

text \<open>
  The effect of the loop body on the skin at position \<open>i\<close>: the other skins stay as they
  are; a skin with a name is updated, appended and written out, a skin without a name is
  only logged.
\<close>

definition step_ok :: "world \<Rightarrow> run \<Rightarrow> nat \<Rightarrow> run \<Rightarrow> bool" where
  "step_ok w rs i rs' =
     (length (skins rs') = length (skins rs)
      \<and> (\<forall>k. k \<noteq> i \<longrightarrow> skins rs' ! k = skins rs ! k)
      \<and> set (logged rs) \<subseteq> set (logged rs')
      \<and> (if has_name (skins rs ! i)
         then processed_skins rs' = processed_skins rs @ [i]
              \<and> (\<exists>s r s'. fetch_skin w s (skins rs ! i) = Some (r, s')
                    \<and> skins rs' ! i = set_market_data (skins rs ! i) (market_record w r))
              \<and> dumped rs'
              \<and> history rs' = history rs @ [Invalid, output_file rs']
         else processed_skins rs' = processed_skins rs
              \<and> skins rs' = skins rs
              \<and> output_file rs' = output_file rs
              \<and> history rs' = history rs
              \<and> SkippingNoName i \<in> set (logged rs')))"


section \<open>Concrete environments and catalog items\<close>

text \<open>
  \<^verbatim>\<open>int\<close> on a string of ASCII digits, the only texts it is applied to in the
  environments below.
\<close>

fun dec_go :: "int \<Rightarrow> string \<Rightarrow> int option" where
  "dec_go a [] = Some a"
| "dec_go a (c # cs) =
     (if c \<in> set ''0123456789'' then dec_go (10 * a + (of_char c - 48)) cs else None)"

definition decimal :: "string \<Rightarrow> exn + int" where
  "decimal s =
     (case (if s = [] then None else dec_go 0 s) of
        None \<Rightarrow> Inl ValueError
      | Some i \<Rightarrow> Inr i)"

text \<open>
  Three pages as the marketplace serves them, reduced to the parts the program reads. In
  the histogram the text of the sell graph is cut short (its string is not closed), so
  \<^verbatim>\<open>eval\<close> raises a \<^verbatim>\<open>SyntaxError\<close> on it, while the buy graph is well formed.
\<close>

definition listing_page :: string where
  "listing_page = ''<script>Market_LoadOrderSpread( 176 );</script>''"

definition histogram_page :: string where
  "histogram_page =
     ''{\"success\":1,\"highest_buy_order\":\"150\",\"lowest_sell_order\":\"175\",\"buy_order_graph\":[[1.5,3,\"x\"]],\"sell_order_graph\":[[1.75,2,\"x]],\"graph_max_y\":3}''"

definition overview_page :: string where
  "overview_page = ''{\"success\":true,\"volume\":\"12\"}''"

text \<open>
  An environment that answers every request by its URL. \<^verbatim>\<open>eval\<close> is given on the
  one well-formed graph text of the histogram page and raises on any other text;
  \<^verbatim>\<open>str(e)\<close> is Python's message for the \<^verbatim>\<open>IndexError\<close> of a list.
\<close>

definition steam :: world where
  "steam =
     \<lparr>http = (\<lambda>n url.
         if prefix ''https://steamcommunity.com/market/listings/'' url then Response 200 listing_page
         else if prefix ''https://steamcommunity.com/market/itemordershistogram'' url
           then Response 200 histogram_page
         else Response 200 overview_page),
      latency = (\<lambda>n. 1 / 10),
      random = (\<lambda>n. 0),
      py_eval = (\<lambda>s. if s = ''[[1.5,3,\"x\"]]''
                       then Inr (PList [PList [PFloat (3 / 2), PInt 3, PStr ''x'']])
                       else Inl SyntaxError),
      int_of_str = decimal,
      float_of_str = (\<lambda>s. Inl ValueError),
      exn_str = (\<lambda>e. if e = IndexError then ''list index out of range'' else ''error'')\<rparr>"

text \<open>
  Three catalog items: a complete one, one without a name, and one whose name has no
  \<^verbatim>\<open>" | "\<close>; and the market data that \<open>steam\<close> yields for the first.
\<close>

definition redline :: pyval where
  "redline = PDict [(''name'', PStr ''AK-47 | Redline''), (''wear'', PInt 2)]"

definition no_name :: pyval where
  "no_name = PDict [(''id'', PStr ''x'')]"

definition no_separator :: pyval where
  "no_separator = PDict [(''name'', PStr ''AK-47'')]"

definition redline_data :: "(string \<times> pyval) list" where
  "redline_data =
     [(''buy_req'', PFloat (3 / 2)), (''sell_req'', PFloat (7 / 4)),
      (''buy_orders'', PList []), (''sell_orders'', PList []),
      (''volume'', PInt 12), (''nameid'', PStr ''176'')]"



definition flaky :: world where
  "flaky =
     steam\<lparr>http := (\<lambda>n url. if n = 1 then Raises (HTTPError None) else http steam n url)\<rparr>"

section \<open>\<^verbatim>\<open>get_hashname\<close>: which hashnames coincide\<close>

lemma replace_go_space: "replace_go '' '' new 0 s = concat (map (\<lambda>c. if c = CHR '' '' then new else [c]) s)"
  by (induction s) auto

lemma replace_space: "replace s '' '' ''%20'' = enc s"
  by (simp add: replace_def enc_def replace_go_space)

lemma enc_simps [simp]: "enc [] = []" "enc (c # cs) = (if c = CHR '' '' then ''%20'' else [c]) @ enc cs"
  "enc (u @ v) = enc u @ enc v"
  by (simp_all add: enc_def)

lemma marker_not_enc:
  assumes "CHR ''%'' \<notin> set v" "(x, y) \<noteq> (CHR ''2'', CHR ''0'')"
  shows "CHR ''%'' # x # y # r \<noteq> enc v @ ''%20%'' @ r'"
  using assms by (cases v) (auto split: if_splits)

lemma enc_marker_unique:
  assumes "CHR ''%'' \<notin> set u" "CHR ''%'' \<notin> set v"
    and "(x, y) \<noteq> (CHR ''2'', CHR ''0'')" "(x', y') \<noteq> (CHR ''2'', CHR ''0'')"
    and "enc u @ ''%20%'' @ x # y # r = enc v @ ''%20%'' @ x' # y' # r'"
  shows "u = v \<and> x # y # r = x' # y' # r'"
  using assms
proof (induction u arbitrary: v)
  case Nil
  show ?case
  proof (cases v)
    case Nil
    with Nil.prems show ?thesis by simp
  next
    case (Cons d ds)
    with Nil.prems have "d = CHR '' ''" by (auto split: if_splits)
    with Cons Nil.prems have "CHR ''%'' # x # y # r = enc ds @ ''%20%'' @ x' # y' # r'" by simp
    moreover from Cons Nil.prems have "CHR ''%'' \<notin> set ds" by simp
    ultimately show ?thesis using marker_not_enc[OF _ Nil.prems(3)] by blast
  qed
next
  case (Cons c u)
  show ?case
  proof (cases v)
    case Nil
    with Cons.prems have "c = CHR '' ''" by (auto split: if_splits)
    with Nil Cons.prems have "CHR ''%'' # x' # y' # r' = enc u @ ''%20%'' @ x # y # r" by simp
    moreover from Cons.prems have "CHR ''%'' \<notin> set u" by simp
    ultimately show ?thesis using marker_not_enc[OF _ Cons.prems(4)] by blast
  next
    case (Cons d ds)
    from Cons.prems Cons have cd: "c = d" by (auto split: if_splits)
    with Cons.prems Cons have "enc u @ ''%20%'' @ x # y # r = enc ds @ ''%20%'' @ x' # y' # r'"
      by (auto split: if_splits)
    moreover from Cons.prems Cons have "CHR ''%'' \<notin> set u" "CHR ''%'' \<notin> set ds" by simp_all
    ultimately have "u = ds \<and> x # y # r = x' # y' # r'"
      using Cons.IH Cons.prems(3,4) by blast
    with cd Cons show ?thesis by simp
  qed
qed

lemma get_hashname_enc:
  assumes "w \<in> {0..4}"
  shows "get_hashname a b (PInt w) st =
     Inr (enc (pre st @ a) @ ''%20%7C%20'' @ enc b @ the (map_of float_conditions w))"
proof -
  from assms have "w = 0 \<or> w = 1 \<or> w = 2 \<or> w = 3 \<or> w = 4" by auto
  then show ?thesis
    by (auto simp: get_hashname_def replace_space pre_def float_conditions_def stattrak_def)
qed

lemma suffix_inj:
  assumes "w1 \<in> {0..4}" "w2 \<in> {0..4::int}"
    and "the (map_of float_conditions w1) = the (map_of float_conditions w2)"
  shows "w1 = w2"
proof -
  from assms(1) have "w1 = 0 \<or> w1 = 1 \<or> w1 = 2 \<or> w1 = 3 \<or> w1 = 4" by auto
  moreover from assms(2) have "w2 = 0 \<or> w2 = 1 \<or> w2 = 2 \<or> w2 = 3 \<or> w2 = 4" by auto
  ultimately show ?thesis using assms(3)
    by (auto simp: float_conditions_def)
qed

lemma suffix_shape:
  assumes "w \<in> {0..4::int}"
  shows "\<exists>y r. the (map_of float_conditions w) = ''%20%2'' @ y # r \<and> y \<noteq> CHR ''0''"
proof -
  from assms have "w = 0 \<or> w = 1 \<or> w = 2 \<or> w = 3 \<or> w = 4" by auto
  then show ?thesis by (auto simp: float_conditions_def)
qed

lemma get_hashname_eq_fields:
  assumes w: "w1 \<in> {0..4}" "w2 \<in> {0..4}" and s: "s1 \<in> {0, 1}" "s2 \<in> {0, 1}"
    and pc: "CHR ''%'' \<notin> set a1 \<union> set b1 \<union> set a2 \<union> set b2"
    and st: "\<not> prefix (stattrak @ '' '') a1" "\<not> prefix (stattrak @ '' '') a2"
    and eq: "get_hashname a1 b1 (PInt w1) (PInt s1) = get_hashname a2 b2 (PInt w2) (PInt s2)"
  shows "a1 = a2 \<and> b1 = b2 \<and> w1 = w2 \<and> s1 = s2"
proof -
  obtain y1 r1 where f1: "the (map_of float_conditions w1) = ''%20%2'' @ y1 # r1" "y1 \<noteq> CHR ''0''"
    using suffix_shape[OF w(1)] by blast
  obtain y2 r2 where f2: "the (map_of float_conditions w2) = ''%20%2'' @ y2 # r2" "y2 \<noteq> CHR ''0''"
    using suffix_shape[OF w(2)] by blast
  have pp: "CHR ''%'' \<notin> set (pre (PInt s1) @ a1)" "CHR ''%'' \<notin> set (pre (PInt s2) @ a2)"
    using pc by (auto simp: pre_def stattrak_def)
  from eq have "enc (pre (PInt s1) @ a1) @ ''%20%'' @ CHR ''7'' # CHR ''C'' # (''%20'' @ enc b1 @ the (map_of float_conditions w1))
      = enc (pre (PInt s2) @ a2) @ ''%20%'' @ CHR ''7'' # CHR ''C'' # (''%20'' @ enc b2 @ the (map_of float_conditions w2))"
    by (simp add: get_hashname_enc[OF w(1)] get_hashname_enc[OF w(2)])
  from enc_marker_unique[OF pp _ _ this]
  have A: "pre (PInt s1) @ a1 = pre (PInt s2) @ a2"
    and B: "enc b1 @ the (map_of float_conditions w1) = enc b2 @ the (map_of float_conditions w2)"
    by simp_all
  from B f1 f2 have "enc b1 @ ''%20%'' @ CHR ''2'' # y1 # r1 = enc b2 @ ''%20%'' @ CHR ''2'' # y2 # r2"
    by simp
  from enc_marker_unique[OF _ _ _ _ this] pc f1(2) f2(2)
  have b: "b1 = b2" and "y1 # r1 = y2 # r2" by simp_all
  with f1 f2 have "the (map_of float_conditions w1) = the (map_of float_conditions w2)" by simp
  then have ww: "w1 = w2" using suffix_inj[OF w] by simp
  have "s1 = s2 \<and> a1 = a2"
  proof (cases "s1 = s2")
    case True
    with A show ?thesis by simp
  next
    case False
    with s have "(s1 = 1 \<and> s2 = 0) \<or> (s1 = 0 \<and> s2 = 1)" by auto
    then show ?thesis
    proof
      assume "s1 = 1 \<and> s2 = 0"
      with A have "a2 = (stattrak @ '' '') @ a1" by (simp add: pre_def)
      then have "prefix (stattrak @ '' '') a2" by (metis prefixI)
      with st show ?thesis by simp
    next
      assume "s1 = 0 \<and> s2 = 1"
      with A have "a1 = (stattrak @ '' '') @ a2" by (simp add: pre_def)
      then have "prefix (stattrak @ '' '') a1" by (metis prefixI)
      with st show ?thesis by simp
    qed
  qed
  with b ww show ?thesis by simp
qed

text \<open>
  Claim C5, as amended. \<^verbatim>\<open>get_hashname\<close> is a function, so equal inputs give equal
  outputs. For wear tiers 0 to 4 and StatTrak flags 0 and 1 it returns a hashname, and two
  tuples that differ in a field get different hashnames provided that weapon and skin
  names contain no percent sign and no weapon name begins with the StatTrak marker
  followed by a space.
\<close>

theorem get_hashname_distinct:
  assumes "w1 \<in> {0..4}" "w2 \<in> {0..4}" "s1 \<in> {0, 1}" "s2 \<in> {0, 1}"
    and "CHR ''%'' \<notin> set a1 \<union> set b1 \<union> set a2 \<union> set b2"
    and "\<not> prefix (stattrak @ '' '') a1" "\<not> prefix (stattrak @ '' '') a2"
    and "(a1, b1, w1, s1) \<noteq> (a2, b2, w2, s2)"
  shows "\<exists>h1 h2. get_hashname a1 b1 (PInt w1) (PInt s1) = Inr h1
           \<and> get_hashname a2 b2 (PInt w2) (PInt s2) = Inr h2 \<and> h1 \<noteq> h2"
proof -
  obtain h1 where h1: "get_hashname a1 b1 (PInt w1) (PInt s1) = Inr h1"
    using get_hashname_enc[OF assms(1)] by simp
  obtain h2 where h2: "get_hashname a2 b2 (PInt w2) (PInt s2) = Inr h2"
    using get_hashname_enc[OF assms(2)] by simp
  have "h1 \<noteq> h2"
  proof
    assume "h1 = h2"
    with h1 h2 have "get_hashname a1 b1 (PInt w1) (PInt s1) = get_hashname a2 b2 (PInt w2) (PInt s2)"
      by simp
    from get_hashname_eq_fields[OF assms(1-7) this] assms(8) show False by simp
  qed
  with h1 h2 show ?thesis by blast
qed

section \<open>\<^verbatim>\<open>RateLimitedClient.get\<close>: requests, retries and termination\<close>

lemma sent_wait [simp]: "sent (wait_if_needed w s) = sent s"
  by (simp add: wait_if_needed_def sleep_def Let_def)

lemma get_rejected:
  assumes "rejected (http w (length (sent s)) url)"
  shows "get w s url = get w (sleep 5 (dispatch w (wait_if_needed w s) url)) url"
  using assms by (subst get.simps) (auto simp: rejected_def Let_def split: outcome.splits)

lemma get_not_rejected:
  assumes "\<not> rejected (http w (length (sent s)) url)"
  shows "\<exists>s'. get w s url = Some (result (http w (length (sent s)) url), s')
           \<and> sent s' = sent s @ [(url, clock (wait_if_needed w s))]
           \<and> slept s' = slept (wait_if_needed w s)"
  using assms by (subst get.simps) (auto simp: result_def dispatch_def Let_def split: outcome.splits)

lemma count_slept_wait: "count_list (slept s) 5 \<le> count_list (slept (wait_if_needed w s)) 5"
  by (simp add: wait_if_needed_def sleep_def Let_def)

lemma get_after_rejections:
  assumes "\<forall>j<k. rejected (http w (length (sent s) + j) url)"
    and "\<not> rejected (http w (length (sent s) + k) url)"
  shows "\<exists>s'. get w s url = Some (result (http w (length (sent s) + k) url), s')
           \<and> map fst (sent s') = map fst (sent s) @ replicate (Suc k) url
           \<and> count_list (slept s) 5 + k \<le> count_list (slept s') 5"
  using assms
proof (induction k arbitrary: s)
  case 0
  then show ?case using get_not_rejected[of w s url] count_slept_wait[of s w] by auto
next
  case (Suc k)
  let ?s1 = "sleep 5 (dispatch w (wait_if_needed w s) url)"
  have len: "length (sent ?s1) = Suc (length (sent s))"
    by (simp add: sleep_def dispatch_def)
  from Suc.prems(1) have r0: "rejected (http w (length (sent s)) url)" by (metis add.right_neutral zero_less_Suc)
  have "\<forall>j<k. rejected (http w (length (sent ?s1) + j) url)"
    using Suc.prems(1) len by (metis add_Suc_shift Suc_less_eq)
  moreover have "\<not> rejected (http w (length (sent ?s1) + k) url)"
    using Suc.prems(2) len by simp
  ultimately obtain s' where s': "get w ?s1 url = Some (result (http w (length (sent ?s1) + k) url), s')"
    "map fst (sent s') = map fst (sent ?s1) @ replicate (Suc k) url"
    "count_list (slept ?s1) 5 + k \<le> count_list (slept s') 5"
    using Suc.IH[of ?s1] by blast
  have "map fst (sent ?s1) = map fst (sent s) @ [url]" by (simp add: sleep_def dispatch_def)
  moreover have "count_list (slept ?s1) 5 = Suc (count_list (slept (wait_if_needed w s)) 5)"
    by (simp add: sleep_def dispatch_def)
  ultimately show ?case using s' get_rejected[OF r0] len count_slept_wait[of s w]
    by (auto simp: replicate_append_same)
qed

lemma get_total:
  assumes "fair w"
  shows "\<exists>r s'. get w s url = Some (r, s')"
proof -
  let ?n = "length (sent s)"
  from assms obtain k0 where "\<not> rejected (http w (?n + k0) url)" unfolding fair_def by blast
  then obtain k where k: "\<not> rejected (http w (?n + k) url)" "\<forall>j<k. rejected (http w (?n + j) url)"
    using exists_least_iff[of "\<lambda>k. \<not> rejected (http w (?n + k) url)"] by auto
  from get_after_rejections[OF k(2) k(1)] show ?thesis by blast
qed

lemma plain_client_fair:
  assumes "plain_client w"
  shows "fair w"
  using assms by (auto simp: plain_client_def fair_def rejected_def)


section \<open>The pacing after a response\<close>

lemma clock_wait: "clock s \<le> clock (wait_if_needed w s)"
  by (simp add: wait_if_needed_def sleep_def Let_def)

lemma delays_wait [simp]:
  "min_delay (wait_if_needed w s) = min_delay s"
  "max_delay (wait_if_needed w s) = max_delay s"
  "last_request_time (wait_if_needed w s) = last_request_time s"
  by (simp_all add: wait_if_needed_def sleep_def Let_def)

lemma get_response_state:
  assumes "get w s url = Some y"
  shows "\<forall>text s1. y = (Inr text, s1) \<longrightarrow> (\<forall>n. 0 \<le> latency w n) \<longrightarrow> 0 < clock s \<longrightarrow>
           sent s1 \<noteq> [] \<and> snd (last (sent s1)) \<le> last_request_time s1
           \<and> 0 < last_request_time s1 \<and> clock s1 = last_request_time s1
           \<and> min_delay s1 = min_delay s \<and> max_delay s1 = max_delay s"
proof (rule get.raw_induct[where P = "\<lambda>w s url y.
         \<forall>text s1. y = (Inr text, s1) \<longrightarrow> (\<forall>n. 0 \<le> latency w n) \<longrightarrow> 0 < clock s \<longrightarrow>
           sent s1 \<noteq> [] \<and> snd (last (sent s1)) \<le> last_request_time s1
           \<and> 0 < last_request_time s1 \<and> clock s1 = last_request_time s1
           \<and> min_delay s1 = min_delay s \<and> max_delay s1 = max_delay s", OF _ assms])
  fix get' w s url y
  assume IH: "\<And>w s url y. get' w s url = Some y \<Longrightarrow>
         \<forall>text s1. y = (Inr text, s1) \<longrightarrow> (\<forall>n. 0 \<le> latency w n) \<longrightarrow> 0 < clock s \<longrightarrow>
           sent s1 \<noteq> [] \<and> snd (last (sent s1)) \<le> last_request_time s1
           \<and> 0 < last_request_time s1 \<and> clock s1 = last_request_time s1
           \<and> min_delay s1 = min_delay s \<and> max_delay s1 = max_delay s"
    and step: "(let s1 = wait_if_needed w s; s2 = dispatch w s1 url
                in case http w (length (sent s1)) url of
                     Response status text \<Rightarrow> Some (Inr text, s2\<lparr>last_request_time := clock s2\<rparr>)
                   | Raises e \<Rightarrow> if rejected (Raises e) then get' w (sleep 5 s2) url else Some (Inl e, s2)) = Some y"
  let ?s1 = "wait_if_needed w s"
  let ?s2 = "dispatch w ?s1 url"
  show "\<forall>text s1. y = (Inr text, s1) \<longrightarrow> (\<forall>n. 0 \<le> latency w n) \<longrightarrow> 0 < clock s \<longrightarrow>
           sent s1 \<noteq> [] \<and> snd (last (sent s1)) \<le> last_request_time s1
           \<and> 0 < last_request_time s1 \<and> clock s1 = last_request_time s1
           \<and> min_delay s1 = min_delay s \<and> max_delay s1 = max_delay s"
  proof (intro allI impI)
    fix tx s1
    assume y: "y = (Inr tx, s1)" and lat: "\<forall>n. 0 \<le> latency w n" and pos: "0 < clock s"
    have c1: "0 < clock ?s1" using pos clock_wait[of s w] by simp
    have l: "0 \<le> latency w (length (sent ?s1))" using lat by simp
    show "sent s1 \<noteq> [] \<and> snd (last (sent s1)) \<le> last_request_time s1
           \<and> 0 < last_request_time s1 \<and> clock s1 = last_request_time s1
           \<and> min_delay s1 = min_delay s \<and> max_delay s1 = max_delay s"
    proof (cases "http w (length (sent ?s1)) url")
      case (Response st t)
      with step y have "s1 = ?s2\<lparr>last_request_time := clock ?s2\<rparr>"
        by (simp add: Let_def)
      with c1 l show ?thesis by (simp add: dispatch_def)
    next
      case (Raises e)
      show ?thesis
      proof (cases "rejected (Raises e)")
        case True
        with step Raises have g: "get' w (sleep 5 ?s2) url = Some y" by (simp add: Let_def)
        have "0 < clock (sleep 5 ?s2)" using c1 l by (simp add: sleep_def dispatch_def)
        with IH[OF g] y lat show ?thesis by (simp add: sleep_def dispatch_def)
      next
        case False
        with step Raises y show ?thesis by (simp add: Let_def)
      qed
    qed
  qed
qed

text \<open>
  When a call of \<^verbatim>\<open>get\<close> has returned a response, the next call does not dispatch
  before \<open>min_delay\<close> has passed since the dispatch of the answered request: this is
  the path on which \<^verbatim>\<open>last_request_time\<close> is set.
\<close>

lemma gap_after_response:
  assumes "get w s url = Some (Inr text, s1)"
    and "\<forall>n. 0 \<le> latency w n" "\<forall>n. 0 \<le> random w n" "0 < clock s" "min_delay s \<le> max_delay s"
  shows "snd (last (sent s1)) + min_delay s \<le> clock (wait_if_needed w s1)"
proof -
  from get_response_state[OF assms(1)] assms(2,4)
  have f: "snd (last (sent s1)) \<le> last_request_time s1" "0 < last_request_time s1"
    "clock s1 = last_request_time s1" "min_delay s1 = min_delay s" "max_delay s1 = max_delay s"
    by simp_all
  have "0 \<le> (max_delay s - min_delay s) * random w (length (sent s1))"
    using assms(3,5) by simp
  then have "min_delay s \<le> uniform w (length (sent s1)) (min_delay s1) (max_delay s1)"
    using f(4,5) by (simp add: uniform_def)
  then have "last_request_time s1 + min_delay s \<le> clock (wait_if_needed w s1)"
    using f(2,3) by (simp add: wait_if_needed_def sleep_def Let_def)
  with f(1) show ?thesis by simp
qed

section \<open>\<^verbatim>\<open>item_data\<close>: the keys of a result and the failure of a depth array\<close>

lemma get_nameid_total:
  assumes "fair w"
  shows "\<exists>r s'. get_nameid w s h = Some (r, s')"
  using get_total[OF assms, of s "listing_url h"] by (auto simp: get_nameid_def)

lemma get_volume_total:
  assumes "fair w"
  shows "\<exists>v s'. get_volume w s h = Some (v, s') \<and> (v = PNone \<or> (\<exists>n. v = PInt n))"
  using get_total[OF assms, of s "volume_url h"] by (auto simp: get_volume_def split: sum.splits)

lemma get_volume_shape:
  assumes "get_volume w s h = Some (v, s')"
  shows "v = PNone \<or> (\<exists>n. v = PInt n)"
  using assms by (auto simp: get_volume_def split: option.splits sum.splits)

lemma item_data_total:
  assumes "fair w"
  shows "\<exists>r s'. item_data w s h = Some (r, s')"
proof -
  obtain r1 s1 where g1: "get_nameid w s h = Some (r1, s1)" using get_nameid_total[OF assms] by blast
  show ?thesis
  proof (cases r1)
    case (Inl e)
    with g1 show ?thesis by (simp add: item_data_def)
  next
    case (Inr n)
    obtain r2 s2 where g2: "get w s1 (histogram_url (str_int n)) = Some (r2, s2)"
      using get_total[OF assms] by blast
    obtain v s3 where g3: "get_volume w s2 h = Some (v, s3)" using get_volume_total[OF assms] by blast
    from g1 Inr g2 g3 show ?thesis
      by (auto simp: item_data_def Let_def split: sum.splits prod.splits)
  qed
qed

lemma price_shape:
  assumes "price w order_data label = Inr v"
  shows "\<exists>b. v = PFloat b"
  using assms by (auto simp: price_def bindE_def split: sum.splits)

text \<open>
  Claim C10. A successful result of \<^verbatim>\<open>item_data\<close> has exactly the keys
  \<^verbatim>\<open>buy_req\<close>, \<^verbatim>\<open>sell_req\<close>, \<^verbatim>\<open>buy_orders\<close>, \<^verbatim>\<open>sell_orders\<close>, \<^verbatim>\<open>volume\<close>
  and \<^verbatim>\<open>nameid\<close>: the prices are floats, the two order entries are lists (empty after
  a parse failure), the volume is an integer or \<^verbatim>\<open>None\<close>, the nameid is a string.
\<close>

theorem item_data_keys:
  assumes "item_data w s h = Some (Inr data, s')"
  shows "map fst data = item_keys
       \<and> (\<exists>b. map_of data ''buy_req'' = Some (PFloat b))
       \<and> (\<exists>a. map_of data ''sell_req'' = Some (PFloat a))
       \<and> (\<exists>bs. map_of data ''buy_orders'' = Some (PList bs))
       \<and> (\<exists>ss. map_of data ''sell_orders'' = Some (PList ss))
       \<and> (map_of data ''volume'' = Some PNone \<or> (\<exists>v. map_of data ''volume'' = Some (PInt v)))
       \<and> (\<exists>n. map_of data ''nameid'' = Some (PStr n))"
  using assms
  by (auto simp: item_data_def item_keys_def Let_def
      dest!: get_volume_shape price_shape split: option.splits sum.splits prod.splits)

text \<open>
  Claim C3, as amended. When the listing id and the two prices are read and the parse of
  the depth arrays raises (in \<^verbatim>\<open>eval\<close> or in the conversion, for the buy side or for
  the sell side), \<^verbatim>\<open>item_data\<close> does not raise: it returns the two prices and records
  an empty list for both sides.
\<close>

theorem item_data_graph_failure:
  assumes "fair w"
    and "get_nameid w s h = Some (Inr n, s1)"
    and "get w s1 (histogram_url (str_int n)) = Some (Inr order_data, s2)"
    and "price w order_data ''\"highest_buy_order\":\"'' = Inr buy_req"
    and "price w order_data ''\"lowest_sell_order\":\"'' = Inr sell_req"
    and "parse_graphs w order_data = Inl e"
  shows "\<exists>volume s3. item_data w s h =
           Some (Inr [(''buy_req'', buy_req), (''sell_req'', sell_req),
                      (''buy_orders'', PList []), (''sell_orders'', PList []),
                      (''volume'', volume), (''nameid'', PStr (str_int n))], s3)"
proof -
  obtain v s3 where "get_volume w s2 h = Some (v, s3)" using get_volume_total[OF assms(1)] by blast
  with assms(2-6) show ?thesis by (simp add: item_data_def)
qed

section \<open>The loop body: one skin\<close>

lemma fetch_skin_total:
  assumes "fair w"
  shows "\<exists>r s'. fetch_skin w s skin = Some (r, s')"
  using item_data_total[OF assms] by (auto simp: fetch_skin_def split: sum.splits)

lemma process_skin_unnamed:
  assumes "skins rs ! i = PDict d" "map_of d ''name'' = None"
  shows "process_skin w rs i = Some (Inr (), rs\<lparr>logged := logged rs @ [SkippingNoName i]\<rparr>)"
  using assms by (simp add: process_skin_def try_skin_def)

lemma process_skin_named:
  assumes "skins rs ! i = PDict d" "map_of d ''name'' \<noteq> None"
    and "fetch_skin w (net rs) (PDict d) = Some (r, s')"
  shows "process_skin w rs i =
     Some (Inr (), append_and_dump
       (rs\<lparr>net := s',
           logged := logged rs @ (case r of Inl e \<Rightarrow> [ErrorProcessing i e] | Inr data \<Rightarrow> []),
           skins := (skins rs)[i := PDict (AList.update ''market_data'' (market_record w r) d)]\<rparr>) i)"
  using assms
  by (cases r) (auto simp: process_skin_def try_skin_def handle_skin_def market_record_def Let_def)

lemma process_skin_step:
  assumes "fair w" "i < length (skins rs)" "is_dict (skins rs ! i)"
  shows "\<exists>rs'. process_skin w rs i = Some (Inr (), rs') \<and> step_ok w rs i rs'"
proof -
  from assms(3) obtain d where d: "skins rs ! i = PDict d" by (cases "skins rs ! i") auto
  show ?thesis
  proof (cases "map_of d ''name'' = None")
    case True
    with d have "\<not> has_name (skins rs ! i)" by (simp add: has_name_def)
    with process_skin_unnamed[OF d True, of w] show ?thesis
      by (auto simp: step_ok_def)
  next
    case False
    with d have hn: "has_name (skins rs ! i)" by (simp add: has_name_def)
    obtain r s' where f: "fetch_skin w (net rs) (PDict d) = Some (r, s')"
      using fetch_skin_total[OF assms(1)] by blast
    let ?rs' = "append_and_dump
       (rs\<lparr>net := s',
           logged := logged rs @ (case r of Inl e \<Rightarrow> [ErrorProcessing i e] | Inr data \<Rightarrow> []),
           skins := (skins rs)[i := PDict (AList.update ''market_data'' (market_record w r) d)]\<rparr>) i"
    have p: "process_skin w rs i = Some (Inr (), ?rs')"
      by (rule process_skin_named[OF d False f])
    have "step_ok w rs i ?rs'"
      unfolding step_ok_def using hn d f assms(2)
      by (auto simp: append_and_dump_def Let_def dumped_def)
    with p show ?thesis by blast
  qed
qed

lemma has_name_set_market_data [simp]: "has_name (set_market_data v md) = has_name v"
  by (cases v) (auto simp: has_name_def update_conv')

lemma is_dict_set_market_data [simp]: "is_dict (set_market_data v md) = is_dict v"
  by (cases v) auto

section \<open>The loop\<close>



section \<open>\<^verbatim>\<open>process_all_skins\<close>: records, checkpoints, aborts\<close>


lemma start_run_simps [simp]:
  "skins (start_run now out items) = items"
  "processed_skins (start_run now out items) = []"
  by (simp_all add: start_run_def initial_run_def)





text \<open>
  Claim C7, as amended. Processing a record at position \<open>i\<close> returns and leaves every
  other item as it is. The item itself keeps the value of every field except
  \<^verbatim>\<open>market_data\<close>; if it has no name it is unchanged, otherwise it is updated in
  place with a \<^verbatim>\<open>market_data\<close> field and the record appended to
  \<^verbatim>\<open>processed_skins\<close> is that same object.
\<close>

theorem process_skin_frame:
  assumes "fair w" "i < length (skins rs)" "skins rs ! i = PDict d"
  shows "\<exists>rs' d'. process_skin w rs i = Some (Inr (), rs')
           \<and> skins rs' ! i = PDict d'
           \<and> (\<forall>key. key \<noteq> ''market_data'' \<longrightarrow> map_of d' key = map_of d key)
           \<and> (\<forall>k. k \<noteq> i \<longrightarrow> skins rs' ! k = skins rs ! k)
           \<and> (if map_of d ''name'' = None
               then d' = d \<and> processed_skins rs' = processed_skins rs
               else map_of d' ''market_data'' \<noteq> None
                    \<and> processed_skins rs' = processed_skins rs @ [i])"
proof (cases "map_of d ''name'' = None")
  case True
  from process_skin_unnamed[OF assms(3) True, of w] assms(3) show ?thesis
    using True by auto
next
  case False
  obtain r s' where f: "fetch_skin w (net rs) (PDict d) = Some (r, s')"
    using fetch_skin_total[OF assms(1)] by blast
  from process_skin_named[OF assms(3) False f] assms(2) False show ?thesis
    by (auto simp: append_and_dump_def Let_def update_conv')
qed

lemma split_go_no_sep:
  assumes "\<not> sublist sep s"
  shows "split_go sep 0 acc s = [rev acc @ s]"
  using assms
proof (induction s arbitrary: acc)
  case Nil
  then show ?case by simp
next
  case (Cons c cs)
  then have "\<not> prefix sep (c # cs)" "\<not> sublist sep cs"
    by (auto simp: sublist_Cons_right)
  with Cons.IH[of "c # acc"] show ?case by simp
qed

lemma split_no_sep: "\<not> sublist sep s \<Longrightarrow> split s sep = [s]"
  by (simp add: split_def split_go_no_sep)

lemma skin_hashname_no_separator:
  assumes "map_of d ''name'' = Some (PStr name)" "\<not> sublist '' | '' name"
  shows "skin_hashname (PDict d) = Inl IndexError"
  using assms by (simp add: skin_hashname_def bindE_def split_no_sep index_def)

text \<open>
  Claim C9. An item whose name is a string without \<^verbatim>\<open>" | "\<close> is not skipped: the
  \<^verbatim>\<open>IndexError\<close> of \<^verbatim>\<open>skin_names[1]\<close> is caught and logged, the item gets the error
  descriptor as its market data, its position is appended to \<^verbatim>\<open>processed_skins\<close>, and
  the output file is rewritten with the records so far followed by this item with its
  error descriptor. In a fair environment a record is processed without a new entry in
  \<^verbatim>\<open>processed_skins\<close> exactly when it has no \<^verbatim>\<open>name\<close> key.
\<close>

theorem name_without_separator_recorded:
  assumes "i < length (skins rs)" "skins rs ! i = PDict d"
  shows "(\<forall>name. map_of d ''name'' = Some (PStr name) \<and> \<not> sublist '' | '' name \<longrightarrow>
            (\<exists>rs'. process_skin w rs i = Some (Inr (), rs')
               \<and> rs' = append_and_dump
                   (rs\<lparr>logged := logged rs @ [ErrorProcessing i IndexError],
                       skins := (skins rs)[i := PDict (AList.update ''market_data''
                                  (PDict [(''error'', PStr (exn_str w IndexError))]) d)]\<rparr>) i
               \<and> skins rs' ! i = PDict (AList.update ''market_data''
                                  (PDict [(''error'', PStr (exn_str w IndexError))]) d)
               \<and> processed_skins rs' = processed_skins rs @ [i]
               \<and> output_file rs' =
                   Json (PList (map (\<lambda>r. skins rs' ! r) (processed_skins rs) @
                     [PDict (AList.update ''market_data''
                        (PDict [(''error'', PStr (exn_str w IndexError))]) d)]))
               \<and> logged rs' = logged rs @ [ErrorProcessing i IndexError]))
       \<and> (fair w \<longrightarrow>
            (\<exists>rs'. process_skin w rs i = Some (Inr (), rs')
               \<and> (processed_skins rs' = processed_skins rs \<longleftrightarrow> map_of d ''name'' = None)))"
proof (intro conjI allI impI)
  fix name
  assume a: "map_of d ''name'' = Some (PStr name) \<and> \<not> sublist '' | '' name"
  let ?item = "PDict (AList.update ''market_data'' (PDict [(''error'', PStr (exn_str w IndexError))]) d)"
  let ?rs' = "append_and_dump
                (rs\<lparr>logged := logged rs @ [ErrorProcessing i IndexError],
                    skins := (skins rs)[i := ?item]\<rparr>) i"
  from a have "fetch_skin w (net rs) (PDict d) = Some (Inl IndexError, net rs)"
    using skin_hashname_no_separator[of d name] by (simp add: fetch_skin_def)
  from process_skin_named[OF assms(2) _ this] a
  have p: "process_skin w rs i = Some (Inr (), ?rs')"
    by (simp add: market_record_def)
  have s: "skins ?rs' ! i = ?item" using assms(1) by (simp add: append_and_dump_def Let_def)
  have q: "processed_skins ?rs' = processed_skins rs @ [i]"
    by (simp add: append_and_dump_def Let_def)
  have o: "output_file ?rs' = Json (PList (map (\<lambda>r. skins ?rs' ! r) (processed_skins rs) @ [?item]))"
    using assms(1) by (simp add: append_and_dump_def Let_def)
  have l: "logged ?rs' = logged rs @ [ErrorProcessing i IndexError]"
    by (simp add: append_and_dump_def Let_def)
  show "\<exists>rs'. process_skin w rs i = Some (Inr (), rs')
               \<and> rs' = ?rs'
               \<and> skins rs' ! i = ?item
               \<and> processed_skins rs' = processed_skins rs @ [i]
               \<and> output_file rs' = Json (PList (map (\<lambda>r. skins rs' ! r) (processed_skins rs) @ [?item]))
               \<and> logged rs' = logged rs @ [ErrorProcessing i IndexError]"
    by (rule exI[of _ ?rs'], intro conjI, rule p, rule refl, rule s, rule q, rule o, rule l)
next
  assume f: "fair w"
  from assms(2) have "is_dict (skins rs ! i)" by simp
  from process_skin_step[OF f assms(1) this]
  obtain rs' where r: "process_skin w rs i = Some (Inr (), rs')" "step_ok w rs i rs'" by blast
  from r(2) assms(2) have h: "processed_skins rs' = processed_skins rs \<longleftrightarrow> map_of d ''name'' = None"
    by (auto simp: step_ok_def has_name_def split: if_splits)
  show "\<exists>rs'. process_skin w rs i = Some (Inr (), rs')
      \<and> (processed_skins rs' = processed_skins rs \<longleftrightarrow> map_of d ''name'' = None)"
    by (rule exI[of _ rs'], rule conjI, rule r(1), rule h)
qed

text \<open>
  Claim C6, as amended. If the input file is missing or is not valid JSON, the run logs
  the error and stops in its initial state: no request has been sent, the output file has
  not been touched, nothing has been processed. The same happens for a JSON document that
  has no length (a number, a truth value, null). \<^verbatim>\<open>process_all_skins\<close> returns
  normally whenever it returns, so the exit status is 0 in these cases as in every other.
\<close>

theorem input_failure_aborts:
  "process_all_skins w now NoFile out = Some (Inr (), (initial_run now out)\<lparr>logged := [InputNotFound]\<rparr>)
   \<and> process_all_skins w now Invalid out = Some (Inr (), (initial_run now out)\<lparr>logged := [InputNotJson]\<rparr>)
   \<and> (\<forall>data. py_len data = Inl TypeError \<longrightarrow>
          process_all_skins w now (Json data) out
            = Some (Inr (), (initial_run now out)\<lparr>logged := [Unexpected TypeError]\<rparr>))
   \<and> (\<forall>input r rs. process_all_skins w now input out = Some (r, rs) \<longrightarrow> exit_status r = 0)"
  by (auto simp: process_all_skins_def run_body_def load_json_def initial_run_def exit_status_def
      split: option.splits sum.splits prod.splits)

section \<open>The statements at concrete inputs\<close>

lemma plain_steam: "plain_client steam"
  by (simp add: plain_client_def steam_def)

lemma fair_steam: "fair steam"
  by (rule plain_client_fair) (rule plain_steam)

lemma item_data_steam: "map_option fst (item_data steam (new_client 1000) ''AK'') = Some (Inr redline_data)"
  by code_simp

text \<open>
  Claim C10, witness: the result for a listing in the environment \<open>steam\<close>.
\<close>

theorem item_data_keys_witness:
  "\<exists>data s'. item_data steam (new_client 1000) ''AK'' = Some (Inr data, s')
      \<and> map fst data = item_keys \<and> map_of data ''volume'' = Some (PInt 12)"
proof -
  from item_data_steam obtain s' where
    e: "item_data steam (new_client 1000) ''AK'' = Some (Inr redline_data, s')"
    by (cases "item_data steam (new_client 1000) ''AK''") auto
  from item_data_keys[OF e] e show ?thesis by (auto simp: redline_data_def)
qed

text \<open>
  Claim C3, counterexample to "for that side only": the buy graph of the page parses
  into one order and only the sell graph fails, yet the result has no buy orders.
\<close>

theorem graph_failure_empties_both_sides:
  "bindE (py_eval steam (graph_str histogram_page ''\"buy_order_graph\":'')) (convert_orders steam)
     = Inr [PDict [(''price'', PFloat (3 / 2)), (''count'', PInt 3)]]
   \<and> py_eval steam (graph_str histogram_page ''\"sell_order_graph\":'') = Inl SyntaxError
   \<and> map_option fst (item_data steam (new_client 1000) ''AK'')
     = Some (Inr [(''buy_req'', PFloat (3 / 2)), (''sell_req'', PFloat (7 / 4)),
                  (''buy_orders'', PList []), (''sell_orders'', PList []),
                  (''volume'', PInt 12), (''nameid'', PStr ''176'')])"
  by code_simp

lemma steam_nameid:
  "get_nameid steam (new_client 1000) ''AK''
     = Some (Inr 176, snd (the (get_nameid steam (new_client 1000) ''AK'')))"
  by code_simp

lemma steam_histogram:
  "get steam (snd (the (get_nameid steam (new_client 1000) ''AK''))) (histogram_url (str_int 176))
     = Some (Inr histogram_page,
         snd (the (get steam (snd (the (get_nameid steam (new_client 1000) ''AK''))) (histogram_url (str_int 176)))))"
  by code_simp

lemma steam_prices:
  "price steam histogram_page ''\"highest_buy_order\":\"'' = Inr (PFloat (3 / 2))"
  "price steam histogram_page ''\"lowest_sell_order\":\"'' = Inr (PFloat (7 / 4))"
  "parse_graphs steam histogram_page = Inl SyntaxError"
  by code_simp+

text \<open>
  Claim C3, witness: the histogram page of \<open>steam\<close>, whose sell graph does not parse.
\<close>

theorem item_data_graph_failure_witness:
  "\<exists>volume s3. item_data steam (new_client 1000) ''AK'' =
      Some (Inr [(''buy_req'', PFloat (3 / 2)), (''sell_req'', PFloat (7 / 4)),
                 (''buy_orders'', PList []), (''sell_orders'', PList []),
                 (''volume'', volume), (''nameid'', PStr (str_int 176))], s3)"
  by (rule item_data_graph_failure[OF fair_steam steam_nameid steam_histogram steam_prices])



text \<open>
  Claim C6, witness: a run without an input file, and a run on the document \<^verbatim>\<open>5\<close>.
\<close>

theorem input_failure_aborts_witness:
  "process_all_skins steam 1000 NoFile NoFile
     = Some (Inr (), (initial_run 1000 NoFile)\<lparr>logged := [InputNotFound]\<rparr>)
   \<and> process_all_skins steam 1000 (Json (PInt 5)) NoFile
     = Some (Inr (), (initial_run 1000 NoFile)\<lparr>logged := [Unexpected TypeError]\<rparr>)
   \<and> exit_status (Inr ()) = 0"
proof -
  note t = input_failure_aborts[of steam 1000 NoFile]
  from t have a: "process_all_skins steam 1000 NoFile NoFile
     = Some (Inr (), (initial_run 1000 NoFile)\<lparr>logged := [InputNotFound]\<rparr>)"
    by (rule conjunct1)
  from t have "py_len (PInt 5) = Inl TypeError \<longrightarrow>
      process_all_skins steam 1000 (Json (PInt 5)) NoFile
        = Some (Inr (), (initial_run 1000 NoFile)\<lparr>logged := [Unexpected TypeError]\<rparr>)"
    by blast
  then have b: "process_all_skins steam 1000 (Json (PInt 5)) NoFile
        = Some (Inr (), (initial_run 1000 NoFile)\<lparr>logged := [Unexpected TypeError]\<rparr>)"
    by simp
  from t a have "exit_status (Inr ()) = 0" by blast
  with a b show ?thesis by blast
qed

text \<open>
  Claim C6, counterexample to "non-success in exactly this case" and to "the only
  run-fatal error class": the exit status of a run whose input file is missing is 0, and
  a run on the valid document \<^verbatim>\<open>5\<close> stops with an unexpected error.
\<close>

theorem missing_input_exit_counterexample:
  "map_option (exit_status \<circ> fst) (process_all_skins steam 1000 NoFile NoFile) = Some 0
   \<and> map_option (logged \<circ> snd) (process_all_skins steam 1000 (Json (PInt 5)) NoFile)
       = Some [Unexpected TypeError]"
  by (simp add: process_all_skins_def run_body_def load_json_def exit_status_def initial_run_def)

text \<open>
  Claim C9, witness: the item named \<^verbatim>\<open>AK-47\<close> is recorded with its error, and the
  output file holds exactly that record.
\<close>

theorem name_without_separator_recorded_witness:
  "\<exists>rs'. process_skin steam (start_run 1000 NoFile [no_separator]) 0 = Some (Inr (), rs')
      \<and> rs' = append_and_dump
          ((start_run 1000 NoFile [no_separator])
             \<lparr>logged := logged (start_run 1000 NoFile [no_separator]) @ [ErrorProcessing 0 IndexError],
              skins := [PDict [(''name'', PStr ''AK-47''),
                               (''market_data'', PDict [(''error'', PStr ''list index out of range'')])]]\<rparr>) 0
      \<and> skins rs' ! 0 = PDict [(''name'', PStr ''AK-47''),
                               (''market_data'', PDict [(''error'', PStr ''list index out of range'')])]
      \<and> processed_skins rs' = [0]
      \<and> output_file rs' = Json (PList [PDict [(''name'', PStr ''AK-47''),
                               (''market_data'', PDict [(''error'', PStr ''list index out of range'')])]])
      \<and> logged rs' = [ErrorProcessing 0 IndexError]
      \<and> processed_skins rs' \<noteq> processed_skins (start_run 1000 NoFile [no_separator])"
proof -
  have s: "skins (start_run 1000 NoFile [no_separator]) ! 0 = PDict [(''name'', PStr ''AK-47'')]"
    by (simp add: no_separator_def)
  have l: "0 < length (skins (start_run 1000 NoFile [no_separator]))" by simp
  have n: "map_of [(''name'', PStr ''AK-47'')] ''name'' = Some (PStr ''AK-47'') \<and> \<not> sublist '' | '' ''AK-47''"
    by (simp add: sublist_code)
  have e: "exn_str steam IndexError = ''list index out of range''" by (simp add: steam_def)
  have g: "logged (start_run 1000 NoFile [no_separator]) = []"
    by (simp add: start_run_def initial_run_def)
  note t = name_without_separator_recorded[OF l s, of steam]
  from t[THEN conjunct1, rule_format, OF n] obtain rs' where a:
    "process_skin steam (start_run 1000 NoFile [no_separator]) 0 = Some (Inr (), rs')"
    "rs' = append_and_dump
          ((start_run 1000 NoFile [no_separator])
             \<lparr>logged := logged (start_run 1000 NoFile [no_separator]) @ [ErrorProcessing 0 IndexError],
              skins := [PDict [(''name'', PStr ''AK-47''),
                               (''market_data'', PDict [(''error'', PStr ''list index out of range'')])]]\<rparr>) 0"
    "skins rs' ! 0 = PDict [(''name'', PStr ''AK-47''),
                               (''market_data'', PDict [(''error'', PStr ''list index out of range'')])]"
    "processed_skins rs' = [0]"
    "output_file rs' = Json (PList [PDict [(''name'', PStr ''AK-47''),
                               (''market_data'', PDict [(''error'', PStr ''list index out of range'')])]])"
    "logged rs' = [ErrorProcessing 0 IndexError]"
    by (simp add: e g)
  from t[THEN conjunct2, rule_format, OF fair_steam] a(1)
  have "processed_skins rs' = processed_skins (start_run 1000 NoFile [no_separator])
       \<longleftrightarrow> map_of [(''name'', PStr ''AK-47'')] ''name'' = None"
    by (elim exE conjE) simp
  then have d: "processed_skins rs' \<noteq> processed_skins (start_run 1000 NoFile [no_separator])"
    by simp
  show ?thesis
    by (rule exI[of _ rs'], intro conjI, rule a(1), rule a(2), rule a(3), rule a(4), rule a(5), rule a(6), rule d)
qed

text \<open>
  Claim C5, witness: the same weapon and skin with and without the StatTrak flag.
\<close>

theorem get_hashname_distinct_witness:
  "\<exists>h1 h2. get_hashname ''AK-47'' ''Redline'' (PInt 0) (PInt 0) = Inr h1
      \<and> get_hashname ''AK-47'' ''Redline'' (PInt 0) (PInt 1) = Inr h2 \<and> h1 \<noteq> h2"
  using get_hashname_distinct[of 0 0 0 1 "''AK-47''" "''Redline''" "''AK-47''" "''Redline''"]
  by (simp add: stattrak_def)

text \<open>
  Claim C5, counterexample to injectivity on all tuples: a space and the text
  \<^verbatim>\<open>%20\<close> in a name give the same hashname, and so do the StatTrak flag and a weapon
  name that already starts with the StatTrak marker.
\<close>

theorem get_hashname_collision_counterexample:
  "get_hashname ''M4A1 S'' ''Nitro'' (PInt 0) (PInt 0) = get_hashname ''M4A1%20S'' ''Nitro'' (PInt 0) (PInt 0)
   \<and> get_hashname ''AK-47'' ''Redline'' (PInt 0) (PInt 1)
       = get_hashname (stattrak @ '' AK-47'') ''Redline'' (PInt 0) (PInt 0)"
  by code_simp




text \<open>
  Claim C7, witness: the first of two items is processed.
\<close>

theorem process_skin_frame_witness:
  "\<exists>rs' d'. process_skin steam (start_run 1000 NoFile [redline, no_name]) 0 = Some (Inr (), rs')
      \<and> skins rs' ! 0 = PDict d'
      \<and> map_of d' ''name'' = Some (PStr ''AK-47 | Redline'')
      \<and> map_of d' ''market_data'' \<noteq> None
      \<and> skins rs' ! 1 = no_name
      \<and> processed_skins rs' = [0]"
proof -
  have "skins (start_run 1000 NoFile [redline, no_name]) ! 0
          = PDict [(''name'', PStr ''AK-47 | Redline''), (''wear'', PInt 2)]"
    by (simp add: redline_def)
  from process_skin_frame[OF fair_steam _ this]
  obtain rs' d' where r: "process_skin steam (start_run 1000 NoFile [redline, no_name]) 0 = Some (Inr (), rs')"
    "skins rs' ! 0 = PDict d'"
    "\<forall>key. key \<noteq> ''market_data'' \<longrightarrow> map_of d' key = map_of [(''name'', PStr ''AK-47 | Redline''), (''wear'', PInt 2)] key"
    "\<forall>k. k \<noteq> 0 \<longrightarrow> skins rs' ! k = skins (start_run 1000 NoFile [redline, no_name]) ! k"
    "map_of d' ''market_data'' \<noteq> None \<and> processed_skins rs' = [0]"
    by auto
  from r(3) have "map_of d' ''name'' = Some (PStr ''AK-47 | Redline'')" by simp
  moreover from r(4) have "skins rs' ! 1 = no_name" by simp
  ultimately show ?thesis using r(1,2,5) by blast
qed

lemma process_redline:
  "map_option (\<lambda>(r, rs). (skins rs, processed_skins rs))
     (process_skin steam (start_run 1000 NoFile [redline]) 0)
   = Some ([set_market_data redline (PDict redline_data)], [0])"
  by code_simp

text \<open>
  Claim C7, counterexample to the immutability of the loaded item: after processing, the
  item in the loaded list has a \<^verbatim>\<open>market_data\<close> field it did not have, and the
  record is a reference to that item.
\<close>

theorem item_mutated_in_place_counterexample:
  "map_option (skins \<circ> snd) (process_skin steam (start_run 1000 NoFile [redline]) 0)
     = Some [set_market_data redline (PDict redline_data)]
   \<and> map_option (processed_skins \<circ> snd) (process_skin steam (start_run 1000 NoFile [redline]) 0)
     = Some [0]
   \<and> skins (start_run 1000 NoFile [redline]) = [redline]
   \<and> set_market_data redline (PDict redline_data) \<noteq> redline"
  using process_redline
  by (cases "process_skin steam (start_run 1000 NoFile [redline]) 0")
     (auto simp: redline_def redline_data_def)

lemma process_flaky:
  "map_option (\<lambda>(r, rs). (processed_skins rs, take 3 (map snd (sent (net rs)))))
     (process_all_skins flaky 1000 (Json (PList [redline, redline])) NoFile)
   = Some ([0, 1], [1000, 5008 / 5, 10017 / 10])"
  by code_simp

text \<open>
  Claim C8, evaluated where it fails. With the default delays of 1.5 and 3.0, the second
  request of the run (the histogram of the first item) is dispatched at 1001.6 and fails
  with a transport error; \<^verbatim>\<open>last_request_time\<close> is only set after a response, so the
  next request (the listing of the second item) is dispatched at 1001.7, a tenth of a
  time unit later.
\<close>

theorem failed_request_gap:
  "map_option (map snd \<circ> take 3 \<circ> sent \<circ> net \<circ> snd)
     (process_all_skins flaky 1000 (Json (PList [redline, redline])) NoFile)
     = Some [1000, 5008 / 5, 10017 / 10]
   \<and> http flaky 1 (histogram_url ''176'') = Raises (HTTPError None)
   \<and> (10017 / 10 - 5008 / 5 :: rat) < min_delay (new_client 1000)"
  using process_flaky
  by (cases "process_all_skins flaky 1000 (Json (PList [redline, redline])) NoFile")
     (auto simp: flaky_def new_client_def take_map)

end
